theory Spec2Isabelle
  imports Main
begin

section \<open>The package httperr: HTTP status codes attached to Go errors\<close>

text \<open>
  The package is one Go file. Its functions are embedded here under their Go names.
  A Go \<^verbatim>\<open>string\<close> is a sequence of bytes, which is what a HOL \<open>string\<close> is. A Go
  \<^verbatim>\<open>int\<close> is modelled by \<open>int\<close>: the package only stores, compares and prints status
  codes and does no arithmetic on them, so no operation can overflow.
  Functions of the Go standard library that the package calls are modelled under the
  name of their package (\<open>http_StatusText\<close>, \<open>strconv_Quote\<close>, ...); each says in its
  text what it covers.
\<close>

subsection \<open>Error values\<close>

text \<open>
  A value of a third-party error type, as far as the package can observe it: the text of
  \<^verbatim>\<open>Error()\<close>, the result of \<^verbatim>\<open>StatusCode()\<close> when the type implements
  \<^verbatim>\<open>StatusCoder\<close>, the result of \<^verbatim>\<open>MarshalJSON()\<close> when the type implements
  \<^verbatim>\<open>json.Marshaler\<close> (\<open>Inl\<close> is the text of the error it returns), whether the type
  implements \<^verbatim>\<open>json.Unmarshaler\<close>, and what \<^verbatim>\<open>encoding/json\<close> produces for the value
  by reflection when the type has no \<^verbatim>\<open>MarshalJSON\<close>.
\<close>

record custom_error =
  ce_Error :: string
  ce_StatusCode :: "int option"
  ce_MarshalJSON :: "(string + string) option"
  ce_Unmarshaler :: bool
  ce_reflect :: "string + string"

text \<open>
  The dynamic value of a Go \<^verbatim>\<open>error\<close> interface: an error of \<^verbatim>\<open>errors\<close>/\<^verbatim>\<open>xerrors\<close>
  (or of the standard library) that carries a message only, a \<^verbatim>\<open>*httpError\<close> of this
  package, or a third-party error. The nil interface is \<open>None\<close> of \<open>goerror option\<close>.
\<close>

datatype goerror =
    ErrorString string
  | HTTP httpError
  | Custom custom_error
and httpError =
    HttpError (code: int) (err: "goerror option")

subsection \<open>Standard library: status texts and formatting verbs\<close>

text \<open>The table of \<^verbatim>\<open>net/http\<close>'s \<^verbatim>\<open>StatusText\<close>; an unknown code has the empty text.\<close>

definition statusText :: "(int \<times> string) list" where
  "statusText =
    [(100, ''Continue''), (101, ''Switching Protocols''), (102, ''Processing''),
     (103, ''Early Hints''),
     (200, ''OK''), (201, ''Created''), (202, ''Accepted''),
     (203, ''Non-Authoritative Information''), (204, ''No Content''),
     (205, ''Reset Content''), (206, ''Partial Content''), (207, ''Multi-Status''),
     (208, ''Already Reported''), (226, ''IM Used''),
     (300, ''Multiple Choices''), (301, ''Moved Permanently''), (302, ''Found''),
     (303, ''See Other''), (304, ''Not Modified''), (305, ''Use Proxy''),
     (307, ''Temporary Redirect''), (308, ''Permanent Redirect''),
     (400, ''Bad Request''), (401, ''Unauthorized''), (402, ''Payment Required''),
     (403, ''Forbidden''), (404, ''Not Found''), (405, ''Method Not Allowed''),
     (406, ''Not Acceptable''), (407, ''Proxy Authentication Required''),
     (408, ''Request Timeout''), (409, ''Conflict''), (410, ''Gone''),
     (411, ''Length Required''), (412, ''Precondition Failed''),
     (413, ''Request Entity Too Large''), (414, ''Request URI Too Long''),
     (415, ''Unsupported Media Type''), (416, ''Requested Range Not Satisfiable''),
     (417, ''Expectation Failed''), (418, ''I'm a teapot''),
     (421, ''Misdirected Request''), (422, ''Unprocessable Entity''), (423, ''Locked''),
     (424, ''Failed Dependency''), (425, ''Too Early''), (426, ''Upgrade Required''),
     (428, ''Precondition Required''), (429, ''Too Many Requests''),
     (431, ''Request Header Fields Too Large''),
     (451, ''Unavailable For Legal Reasons''),
     (500, ''Internal Server Error''), (501, ''Not Implemented''), (502, ''Bad Gateway''),
     (503, ''Service Unavailable''), (504, ''Gateway Timeout''),
     (505, ''HTTP Version Not Supported''), (506, ''Variant Also Negotiates''),
     (507, ''Insufficient Storage''), (508, ''Loop Detected''), (510, ''Not Extended''),
     (511, ''Network Authentication Required'')]"

definition http_StatusText :: "int \<Rightarrow> string" where
  "http_StatusText c = (case map_of statusText c of Some s \<Rightarrow> s | None \<Rightarrow> [])"

abbreviation StatusOK :: int where "StatusOK \<equiv> 200"
abbreviation StatusBadRequest :: int where "StatusBadRequest \<equiv> 400"
abbreviation StatusNotFound :: int where "StatusNotFound \<equiv> 404"
abbreviation StatusMethodNotAllowed :: int where "StatusMethodNotAllowed \<equiv> 405"
abbreviation StatusInternalServerError :: int where "StatusInternalServerError \<equiv> 500"

text \<open>The verb \<^verbatim>\<open>%d\<close> of \<^verbatim>\<open>fmt\<close> on an \<^verbatim>\<open>int\<close>: decimal digits, with a minus sign.\<close>

definition digit :: "nat \<Rightarrow> char" where
  "digit n = ''0123456789'' ! n"

fun decimal :: "nat \<Rightarrow> string" where
  "decimal n = (if n < 10 then [digit n] else decimal (n div 10) @ [digit (n mod 10)])"

declare decimal.simps [simp del]

definition fmt_d :: "int \<Rightarrow> string" where
  "fmt_d i = (if i < 0 then CHR ''-'' # decimal (nat (- i)) else decimal (nat i))"

subsection \<open>Range classification\<close>









text \<open>The range of status codes that the data model of the specification names.\<close>

definition valid_status :: "int \<Rightarrow> bool" where
  "valid_status c \<longleftrightarrow> 100 \<le> c \<and> c \<le> 599"

subsection \<open>Constructors and accessors\<close>

definition New :: "int \<Rightarrow> goerror option \<Rightarrow> goerror" where
  "New c e = HTTP (HttpError c e)"

text \<open>
  \<^verbatim>\<open>Errorf\<close> formats its cause with \<^verbatim>\<open>xerrors.Errorf\<close>. The formatter is a parameter
  \<open>sprintf\<close> here (the text that \<^verbatim>\<open>fmt\<close> produces for a format and its arguments); the
  cause is an error whose message is that text.
\<close>

definition Errorf :: "(string \<Rightarrow> 'a list \<Rightarrow> string) \<Rightarrow> int \<Rightarrow> string \<Rightarrow> 'a list \<Rightarrow> goerror" where
  "Errorf sprintf c format args = HTTP (HttpError c (Some (ErrorString (sprintf format args))))"

definition BadRequest :: "goerror option \<Rightarrow> goerror" where
  "BadRequest e = New StatusBadRequest e"

definition InternalServerError :: "goerror option \<Rightarrow> goerror" where
  "InternalServerError e = New StatusInternalServerError e"

definition NotFound :: "goerror option \<Rightarrow> goerror" where
  "NotFound e = New StatusNotFound e"

definition MethodNotAllowed :: "goerror option \<Rightarrow> goerror" where
  "MethodNotAllowed e = New StatusMethodNotAllowed e"

text \<open>The methods \<^verbatim>\<open>StatusCode\<close> and \<^verbatim>\<open>Unwrap\<close> of \<^verbatim>\<open>*httpError\<close>.\<close>

definition StatusCode :: "httpError \<Rightarrow> int" where
  "StatusCode e = code e"

definition Unwrap :: "httpError \<Rightarrow> goerror option" where
  "Unwrap e = err e"

text \<open>
  The type assertion \<^verbatim>\<open>err.(StatusCoder)\<close>: the status code that the dynamic value
  exposes, if its type has the method.
\<close>

fun as_StatusCoder :: "goerror \<Rightarrow> int option" where
  "as_StatusCoder (ErrorString s) = None"
| "as_StatusCoder (HTTP h) = Some (StatusCode h)"
| "as_StatusCoder (Custom c) = ce_StatusCode c"

subsection \<open>Standard library: UTF-8\<close>

abbreviation backslash :: char where "backslash \<equiv> CHR 0x5C"
abbreviation dquote :: char where "dquote \<equiv> CHR 0x22"

definition byte :: "char \<Rightarrow> int" where
  "byte c = of_char c"

definition between :: "int \<Rightarrow> int \<Rightarrow> char \<Rightarrow> bool" where
  "between lo hi c \<longleftrightarrow> lo \<le> byte c \<and> byte c \<le> hi"

definition RuneError :: int where
  "RuneError = 0xFFFD"

text \<open>
  \<^verbatim>\<open>utf8.DecodeRuneInString\<close>: the first rune of a string and the number of bytes it takes.
  A byte that does not start a well-formed encoding (overlong forms, surrogates and
  values above U+10FFFF are not well-formed) decodes to \<open>RuneError\<close> with width 1.
\<close>

fun utf8_DecodeRune :: "string \<Rightarrow> int \<times> nat" where
  "utf8_DecodeRune [] = (RuneError, 0)"
| "utf8_DecodeRune (c # cs) =
    (let x = byte c in
     if x < 0x80 then (x, 1)
     else if x < 0xC2 \<or> 0xF4 < x then (RuneError, 1)
     else if x < 0xE0 then
       (case cs of
          c1 # _ \<Rightarrow>
            if between 0x80 0xBF c1 then (x mod 0x20 * 0x40 + byte c1 mod 0x40, 2)
            else (RuneError, 1)
        | _ \<Rightarrow> (RuneError, 1))
     else if x < 0xF0 then
       (case cs of
          c1 # c2 # _ \<Rightarrow>
            if between (if x = 0xE0 then 0xA0 else 0x80) (if x = 0xED then 0x9F else 0xBF) c1
               \<and> between 0x80 0xBF c2
            then (x mod 0x10 * 0x1000 + byte c1 mod 0x40 * 0x40 + byte c2 mod 0x40, 3)
            else (RuneError, 1)
        | _ \<Rightarrow> (RuneError, 1))
     else
       (case cs of
          c1 # c2 # c3 # _ \<Rightarrow>
            if between (if x = 0xF0 then 0x90 else 0x80) (if x = 0xF4 then 0x8F else 0xBF) c1
               \<and> between 0x80 0xBF c2 \<and> between 0x80 0xBF c3
            then (x mod 8 * 0x40000 + byte c1 mod 0x40 * 0x1000 + byte c2 mod 0x40 * 0x40
                  + byte c3 mod 0x40, 4)
            else (RuneError, 1)
        | _ \<Rightarrow> (RuneError, 1)))"

text \<open>\<^verbatim>\<open>utf8.EncodeRune\<close>; a surrogate or a value above U+10FFFF is encoded as U+FFFD.\<close>

definition utf8_EncodeRune :: "int \<Rightarrow> string" where
  "utf8_EncodeRune r =
    (let r = (if (0xD800 \<le> r \<and> r \<le> 0xDFFF) \<or> 0x10FFFF < r then RuneError else r) in
     if r < 0x80 then [char_of r]
     else if r < 0x800 then [char_of (0xC0 + r div 0x40), char_of (0x80 + r mod 0x40)]
     else if r < 0x10000 then
       [char_of (0xE0 + r div 0x1000), char_of (0x80 + r div 0x40 mod 0x40),
        char_of (0x80 + r mod 0x40)]
     else
       [char_of (0xF0 + r div 0x40000), char_of (0x80 + r div 0x1000 mod 0x40),
        char_of (0x80 + r div 0x40 mod 0x40), char_of (0x80 + r mod 0x40)])"

definition hex :: "int \<Rightarrow> char" where
  "hex n = ''0123456789abcdef'' ! nat (n mod 16)"

definition hex2 :: "int \<Rightarrow> string" where
  "hex2 n = [hex (n div 0x10), hex n]"

definition hex4 :: "int \<Rightarrow> string" where
  "hex4 n = hex2 (n div 0x100) @ hex2 n"

definition hex8 :: "int \<Rightarrow> string" where
  "hex8 n = hex4 (n div 0x10000) @ hex4 n"

subsection \<open>Standard library: the verb \<^verbatim>\<open>%q\<close>\<close>

text \<open>
  \<^verbatim>\<open>strconv.IsPrint\<close>. Up to U+00FF this is Go's definition. Above, Go looks the rune up
  in its Unicode tables, which are not part of this development: such a rune is taken
  to be printable, so the model of \<^verbatim>\<open>%q\<close> below is exact on strings whose runes above
  U+00FF are printable ones.
\<close>

definition strconv_IsPrint :: "int \<Rightarrow> bool" where
  "strconv_IsPrint r \<longleftrightarrow>
     (if r \<le> 0xFF then (0x20 \<le> r \<and> r \<le> 0x7E) \<or> (0xA1 \<le> r \<and> r \<noteq> 0xAD) else True)"

text \<open>\<^verbatim>\<open>appendEscapedRune\<close> of \<^verbatim>\<open>strconv\<close> for the quote \<^verbatim>\<open>"\<close>; \<open>bs\<close> is the rune's encoding.\<close>

definition appendEscapedRune :: "int \<Rightarrow> string \<Rightarrow> string" where
  "appendEscapedRune r bs =
    (if r = 0x22 \<or> r = 0x5C then [backslash, char_of r]
     else if strconv_IsPrint r then bs
     else if r = 0x7 then [backslash, CHR ''a'']
     else if r = 0x8 then [backslash, CHR ''b'']
     else if r = 0xC then [backslash, CHR ''f'']
     else if r = 0xA then [backslash, CHR ''n'']
     else if r = 0xD then [backslash, CHR ''r'']
     else if r = 0x9 then [backslash, CHR ''t'']
     else if r = 0xB then [backslash, CHR ''v'']
     else if r < 0x20 \<or> r = 0x7F then backslash # CHR ''x'' # hex2 r
     else if r < 0x10000 then backslash # CHR ''u'' # hex4 r
     else backslash # CHR ''U'' # hex8 r)"

text \<open>
  One round of the loop of \<^verbatim>\<open>strconv\<close>'s \<^verbatim>\<open>appendQuotedWith\<close>, on a string that is not
  empty: the escape of the first rune. A byte that is not UTF-8 is written in the
  form \<^verbatim>\<open>\x\<close> with two hexadecimal digits.
\<close>

definition quote_rune :: "string \<Rightarrow> string" where
  "quote_rune s =
    (if snd (utf8_DecodeRune s) = 1 \<and> fst (utf8_DecodeRune s) = RuneError
     then backslash # CHR ''x'' # hex2 (byte (hd s))
     else appendEscapedRune (fst (utf8_DecodeRune s)) (take (snd (utf8_DecodeRune s)) s))"

fun quote_runes :: "string \<Rightarrow> string" where
  "quote_runes [] = []"
| "quote_runes (c # cs) =
     quote_rune (c # cs) @ quote_runes (drop (snd (utf8_DecodeRune (c # cs)) - 1) cs)"

text \<open>\<^verbatim>\<open>strconv.Quote\<close>, which is what \<^verbatim>\<open>%q\<close> applies to a string.\<close>

definition strconv_Quote :: "string \<Rightarrow> string" where
  "strconv_Quote s = dquote # quote_runes s @ [dquote]"

subsection \<open>The error text\<close>

text \<open>
  \<open>Error\<close> is the call \<^verbatim>\<open>err.Error()\<close> on an interface value, dispatched on the dynamic
  type; \<open>httpError_Error\<close> is the method of \<^verbatim>\<open>*httpError\<close>. The verb \<^verbatim>\<open>%q\<close> on an error
  operand quotes the text of its \<^verbatim>\<open>Error()\<close>.
\<close>

fun Error :: "goerror \<Rightarrow> string" and httpError_Error :: "httpError \<Rightarrow> string" where
  "Error (ErrorString s) = s"
| "Error (HTTP h) = httpError_Error h"
| "Error (Custom c) = ce_Error c"
| "httpError_Error (HttpError c e) =
    (let status = http_StatusText c in
     case e of
       None \<Rightarrow> fmt_d c @ '' '' @ status
     | Some cause \<Rightarrow> fmt_d c @ '' '' @ status @ '': '' @ strconv_Quote (Error cause))"

subsection \<open>Standard library: JSON encoding of the payload\<close>

record Response =
  r_Message :: string
  r_Error :: string
  r_StatusCode :: int

text \<open>
  The bytes that \<^verbatim>\<open>encoding/json\<close> may copy into a string literal unchanged when it
  escapes HTML, which \<^verbatim>\<open>json.Marshal\<close> and \<^verbatim>\<open>json.Encoder\<close> do by default.
\<close>

definition htmlSafe :: "int \<Rightarrow> bool" where
  "htmlSafe b \<longleftrightarrow> 0x20 \<le> b \<and> b < 0x80 \<and> b \<notin> {0x22, 0x26, 0x3C, 0x3E, 0x5C}"

text \<open>
  The string encoder of \<^verbatim>\<open>encoding/json\<close>, rune by rune (\<open>json_escape_rune\<close> is
  applied to strings that are not empty): control bytes other than newline, carriage
  return and tab are written as a six-byte escape (a backslash, \<open>u00\<close> and two hexadecimal
  digits), as Go does before release 1.22, which introduced short forms for backspace
  and form feed; a byte that is not UTF-8 is written as the escape of U+FFFD.
\<close>

definition json_escape_rune :: "string \<Rightarrow> string" where
  "json_escape_rune s =
    (if byte (hd s) < 0x80 then
       (if htmlSafe (byte (hd s)) then [hd s]
        else backslash #
          (if hd s = backslash \<or> hd s = dquote then [hd s]
           else if byte (hd s) = 0xA then ''n''
           else if byte (hd s) = 0xD then ''r''
           else if byte (hd s) = 0x9 then ''t''
           else ''u00'' @ hex2 (byte (hd s))))
     else if fst (utf8_DecodeRune s) = RuneError \<and> snd (utf8_DecodeRune s) = 1
       then backslash # ''ufffd''
     else if fst (utf8_DecodeRune s) = 0x2028 \<or> fst (utf8_DecodeRune s) = 0x2029
       then backslash # ''u202'' @ [hex (fst (utf8_DecodeRune s))]
     else take (snd (utf8_DecodeRune s)) s)"

fun json_string_body :: "string \<Rightarrow> string" where
  "json_string_body [] = []"
| "json_string_body (c # cs) =
     json_escape_rune (c # cs)
     @ json_string_body (drop (snd (utf8_DecodeRune (c # cs)) - 1) cs)"

definition json_encode_string :: "string \<Rightarrow> string" where
  "json_encode_string s = dquote # json_string_body s @ [dquote]"

text \<open>
  \<^verbatim>\<open>json.Marshal\<close> on a \<^verbatim>\<open>Response\<close>: the fields in declaration order under the names of
  their tags. Strings and integers always encode, so no error is returned.
\<close>

definition json_Marshal_Response :: "Response \<Rightarrow> goerror + string" where
  \<open>json_Marshal_Response r =
     Inr (''{"message":'' @ json_encode_string (r_Message r)
          @ '',"error":'' @ json_encode_string (r_Error r)
          @ '',"statusCode":'' @ fmt_d (r_StatusCode r) @ ''}'')\<close>

definition MarshalJSON :: "httpError \<Rightarrow> goerror + string" where
  "MarshalJSON e =
    (let status = http_StatusText (code e);
         msg = (case err e of None \<Rightarrow> status | Some cause \<Rightarrow> Error cause)
     in json_Marshal_Response \<lparr>r_Message = msg, r_Error = status, r_StatusCode = code e\<rparr>)"

subsection \<open>Standard library: the media type of a header\<close>

text \<open>
  \<^verbatim>\<open>unicode.IsSpace\<close>, and the two functions of \<^verbatim>\<open>strings\<close> that trim such runes from the left
  end of a string and from both ends. \<open>trim_right_rev\<close> works on the reversed string: its
  head is the last byte, and a space of two or three bytes is recognised by decoding
  them in their order.
\<close>

definition IsSpace :: "int \<Rightarrow> bool" where
  "IsSpace r \<longleftrightarrow>
     r \<in> {0x9, 0xA, 0xB, 0xC, 0xD, 0x20, 0x85, 0xA0, 0x1680, 0x2028, 0x2029, 0x202F,
           0x205F, 0x3000}
     \<or> (0x2000 \<le> r \<and> r \<le> 0x200A)"

fun TrimLeft_space :: "string \<Rightarrow> string" where
  "TrimLeft_space [] = []"
| "TrimLeft_space (c # cs) =
    (if IsSpace (fst (utf8_DecodeRune (c # cs)))
     then TrimLeft_space (drop (snd (utf8_DecodeRune (c # cs)) - 1) cs)
     else c # cs)"

fun trim_right_rev :: "string \<Rightarrow> string" where
  "trim_right_rev [] = []"
| "trim_right_rev [c] = (if byte c < 0x80 \<and> IsSpace (byte c) then [] else [c])"
| "trim_right_rev [c, c1] =
    (if byte c < 0x80 \<and> IsSpace (byte c) then trim_right_rev [c1]
     else if utf8_DecodeRune [c1, c] \<in> {(0x85, 2), (0xA0, 2)} then []
     else [c, c1])"
| "trim_right_rev (c # c1 # c2 # cs) =
    (if byte c < 0x80 \<and> IsSpace (byte c) then trim_right_rev (c1 # c2 # cs)
     else if utf8_DecodeRune [c1, c] \<in> {(0x85, 2), (0xA0, 2)} then trim_right_rev (c2 # cs)
     else if snd (utf8_DecodeRune [c2, c1, c]) = 3 \<and> IsSpace (fst (utf8_DecodeRune [c2, c1, c]))
       then trim_right_rev cs
     else c # c1 # c2 # cs)"

definition TrimSpace :: "string \<Rightarrow> string" where
  "TrimSpace s = rev (trim_right_rev (rev (TrimLeft_space s)))"

text \<open>
  \<^verbatim>\<open>strings.ToLower\<close>. The letters A to Z are lowered; of the runes above U+007F, only
  U+0130 and U+212A have an ASCII lower case (\<open>i\<close> and \<open>k\<close>); a byte that is not UTF-8
  becomes U+FFFD when the string is not all ASCII. Every other rune above U+007F is
  left as it is here, where Go maps it to its lower case, another rune above U+007F:
  the media type parser rejects a type that holds either.
\<close>

definition lower_rune :: "string \<Rightarrow> string" where
  "lower_rune s =
    (if byte (hd s) < 0x80 then
       (if 0x41 \<le> byte (hd s) \<and> byte (hd s) \<le> 0x5A then [char_of (byte (hd s) + 0x20)]
        else [hd s])
     else if utf8_DecodeRune s = (RuneError, 1) then utf8_EncodeRune RuneError
     else if fst (utf8_DecodeRune s) = 0x130 then ''i''
     else if fst (utf8_DecodeRune s) = 0x212A then ''k''
     else take (snd (utf8_DecodeRune s)) s)"

fun ToLower :: "string \<Rightarrow> string" where
  "ToLower [] = []"
| "ToLower (c # cs) =
     lower_rune (c # cs) @ ToLower (drop (snd (utf8_DecodeRune (c # cs)) - 1) cs)"

text \<open>Tokens of \<^verbatim>\<open>mime\<close> (RFC 1521 and RFC 2045).\<close>

definition isTSpecial :: "char \<Rightarrow> bool" where
  "isTSpecial c \<longleftrightarrow> c \<in> set (''()<>@,;:'' @ [backslash, dquote] @ ''/[]?='')"

definition isTokenChar :: "char \<Rightarrow> bool" where
  "isTokenChar c \<longleftrightarrow> 0x20 < byte c \<and> byte c < 0x7F \<and> \<not> isTSpecial c"

definition consumeToken :: "string \<Rightarrow> string \<times> string" where
  "consumeToken v = (takeWhile isTokenChar v, dropWhile isTokenChar v)"

text \<open>
  \<^verbatim>\<open>checkMediaTypeDisposition\<close>: a token, or two tokens around a slash; \<open>None\<close> is Go's
  \<^verbatim>\<open>nil\<close> error.
\<close>

definition checkMediaTypeDisposition :: "string \<Rightarrow> goerror option" where
  "checkMediaTypeDisposition s =
    (if fst (consumeToken s) = [] then Some (ErrorString ''mime: no media type'')
     else if snd (consumeToken s) = [] then None
     else if hd (snd (consumeToken s)) \<noteq> CHR ''/''
       then Some (ErrorString ''mime: expected slash after first token'')
     else if fst (consumeToken (tl (snd (consumeToken s)))) = []
       then Some (ErrorString ''mime: expected token after slash'')
     else if snd (consumeToken (tl (snd (consumeToken s)))) \<noteq> []
       then Some (ErrorString ''mime: unexpected content after media subtype'')
     else None)"

text \<open>
  The body of a quoted parameter value, after the opening quote: the value and what
  follows the closing quote, or \<open>None\<close> when the quote is not closed or a line ends in it.
\<close>

fun quoted :: "string \<Rightarrow> string \<Rightarrow> (string \<times> string) option" where
  "quoted [] acc = None"
| "quoted [c] acc = (if c = dquote then Some (rev acc, []) else None)"
| "quoted (c # c1 # cs) acc =
    (if c = dquote then Some (rev acc, c1 # cs)
     else if c = backslash \<and> isTSpecial c1 then quoted cs (c1 # acc)
     else if c = CHR 0x0D \<or> c = CHR 0x0A then None
     else quoted (c1 # cs) (c # acc))"

definition consumeValue :: "string \<Rightarrow> string \<times> string" where
  "consumeValue v =
    (if v = [] then ([], [])
     else if hd v \<noteq> dquote then consumeToken v
     else (case quoted (tl v) [] of None \<Rightarrow> ([], v) | Some r \<Rightarrow> r))"

text \<open>
  \<^verbatim>\<open>consumeMediaParam\<close>: one parameter \<^verbatim>\<open>; name = value\<close> at the head of \<open>v\<close>. The result is
  the name in lower case, the value and the rest, or two empty strings and \<open>v\<close> itself
  when there is no well-formed parameter. \<open>after_semicolon\<close>, \<open>after_name\<close> and
  \<open>after_equals\<close> are the successive values of Go's variable \<^verbatim>\<open>rest\<close>.
\<close>

definition after_semicolon :: "string \<Rightarrow> string" where
  "after_semicolon v = TrimLeft_space (tl (TrimLeft_space v))"

definition after_name :: "string \<Rightarrow> string" where
  "after_name v = TrimLeft_space (snd (consumeToken (after_semicolon v)))"

definition after_equals :: "string \<Rightarrow> string" where
  "after_equals v = TrimLeft_space (tl (after_name v))"

definition consumeMediaParam :: "string \<Rightarrow> string \<times> string \<times> string" where
  "consumeMediaParam v =
    (if take 1 (TrimLeft_space v) \<noteq> '';'' then ([], [], v)
     else if fst (consumeToken (after_semicolon v)) = [] then ([], [], v)
     else if take 1 (after_name v) \<noteq> ''='' then ([], [], v)
     else if fst (consumeValue (after_equals v)) = []
             \<and> snd (consumeValue (after_equals v)) = after_equals v then ([], [], v)
     else (ToLower (fst (consumeToken (after_semicolon v))),
           fst (consumeValue (after_equals v)), snd (consumeValue (after_equals v))))"

text \<open>
  The loop of \<^verbatim>\<open>ParseMediaType\<close> over the parameters. \<open>keys\<close> are the names seen so far: a
  name seen twice is an error that empties the media type, while a malformed parameter
  is an error that leaves it (\<^verbatim>\<open>ErrInvalidMediaParameter\<close>). A parameter takes at least its
  semicolon from \<open>v\<close>, which is what the test on the lengths says; the loop ends for
  that reason.
\<close>

function params_loop :: "string \<Rightarrow> string list \<Rightarrow> string \<Rightarrow> string \<times> goerror option" where
  "params_loop v keys mediatype =
    (if TrimLeft_space v = [] then (mediatype, None)
     else if fst (consumeMediaParam (TrimLeft_space v)) = [] then
       (if TrimSpace (snd (snd (consumeMediaParam (TrimLeft_space v)))) = '';''
        then (mediatype, None)
        else (mediatype, Some (ErrorString ''mime: invalid media parameter'')))
     else if fst (consumeMediaParam (TrimLeft_space v)) \<in> set keys
       then ([], Some (ErrorString ''mime: duplicate parameter name''))
     else if length (snd (snd (consumeMediaParam (TrimLeft_space v)))) < length v
       then params_loop (snd (snd (consumeMediaParam (TrimLeft_space v))))
              (fst (consumeMediaParam (TrimLeft_space v)) # keys) mediatype
     else (mediatype, None))"
  by pat_completeness auto
termination
  by (relation "measure (\<lambda>(v, keys, mediatype). length v)") auto

declare params_loop.simps [simp del]

text \<open>
  \<^verbatim>\<open>mime.ParseMediaType\<close>, without the map of parameters, which the package drops: the
  media type and the error. (This is the function as of Go 1.9 to 1.16; later releases
  accept a repeated parameter that repeats its value.)
\<close>

definition mime_ParseMediaType :: "string \<Rightarrow> string \<times> goerror option" where
  "mime_ParseMediaType v =
    (case checkMediaTypeDisposition (TrimSpace (ToLower (takeWhile (\<lambda>c. c \<noteq> CHR '';'') v))) of
       Some e \<Rightarrow> ([], Some e)
     | None \<Rightarrow>
         params_loop (dropWhile (\<lambda>c. c \<noteq> CHR '';'') v) []
           (TrimSpace (ToLower (takeWhile (\<lambda>c. c \<noteq> CHR '';'') v))))"

subsection \<open>Standard library: JSON decoding of the payload\<close>

text \<open>
  \<^verbatim>\<open>json.Unmarshal\<close> first checks the whole input against the JSON grammar and then stores
  the value it denotes. The model parses the input into a tree with the grammar and the
  messages of Go's scanner, and stores the tree afterwards. The texts of the errors
  are those of the releases around 1.13, the time of the package. Go's limit on the
  nesting depth (release 1.15 and later) is not modelled.
\<close>

datatype json =
    JNull
  | JBool bool
  | JNumber string
  | JString string
  | JArray "json list"
  | JObject "(string \<times> json) list"

text \<open>A failed parse: a syntax error with its text, or a recursion that ran out of fuel.\<close>

datatype perror = Syntax string | Fuel

type_synonym 'a parsed = "perror + ('a \<times> string)"

definition isWS :: "char \<Rightarrow> bool" where
  "isWS c \<longleftrightarrow> c = CHR '' '' \<or> c = CHR 0x09 \<or> c = CHR 0x0D \<or> c = CHR 0x0A"

definition skip_ws :: "string \<Rightarrow> string" where
  "skip_ws s = dropWhile isWS s"

definition isDigit :: "char \<Rightarrow> bool" where
  "isDigit c \<longleftrightarrow> 0x30 \<le> byte c \<and> byte c \<le> 0x39"

text \<open>\<^verbatim>\<open>quoteChar\<close> and the two texts of a \<^verbatim>\<open>SyntaxError\<close>.\<close>

definition quoteChar :: "char \<Rightarrow> string" where
  "quoteChar c =
    (if c = CHR 0x27 then [CHR 0x27, backslash, CHR 0x27, CHR 0x27]
     else if c = dquote then [CHR 0x27, dquote, CHR 0x27]
     else CHR 0x27 # quote_runes (utf8_EncodeRune (byte c)) @ [CHR 0x27])"

definition invalid :: "char \<Rightarrow> string \<Rightarrow> perror" where
  "invalid c ctx = Syntax (''invalid character '' @ quoteChar c @ '' '' @ ctx)"

definition eof :: perror where
  "eof = Syntax ''unexpected end of JSON input''"

text \<open>The rest of a literal name: \<open>expected\<close> are the bytes still to come.\<close>

fun literal :: "string \<Rightarrow> string \<Rightarrow> string \<Rightarrow> perror + string" where
  "literal name [] s = Inr s"
| "literal name (e # es) [] = Inl eof"
| "literal name (e # es) (c # cs) =
    (if c = e then literal name es cs
     else Inl (invalid c (''in literal '' @ name @ '' (expecting '' @ quoteChar e @ '')'')))"

text \<open>
  A number: an optional minus sign, the integer part, an optional fraction and an
  optional exponent. The result is the literal and the rest of the input.
\<close>

definition int_part :: "string \<Rightarrow> string" where
  "int_part s = (if take 1 s = ''0'' then ''0'' else takeWhile isDigit s)"

definition frac_part :: "string \<Rightarrow> string" where
  "frac_part s = (if take 1 s = ''.'' then CHR ''.'' # takeWhile isDigit (tl s) else [])"

definition exp_sign :: "string \<Rightarrow> string" where
  "exp_sign s = (if take 1 (tl s) = ''+'' \<or> take 1 (tl s) = ''-'' then take 2 s else take 1 s)"

definition exp_part :: "string \<Rightarrow> string" where
  "exp_part s =
    (if take 1 s = ''e'' \<or> take 1 s = ''E''
     then exp_sign s @ takeWhile isDigit (drop (length (exp_sign s)) s)
     else [])"

definition number_error :: "string \<Rightarrow> string \<Rightarrow> perror" where
  "number_error s ctx = (case s of [] \<Rightarrow> eof | c # cs \<Rightarrow> invalid c ctx)"

definition scan_exp :: "string \<Rightarrow> string \<Rightarrow> string parsed" where
  "scan_exp lit s =
    (if exp_part s = [] then Inr (lit, s)
     else if exp_part s = exp_sign s
       then Inl (number_error (drop (length (exp_sign s)) s) ''in exponent of numeric literal'')
     else Inr (lit @ exp_part s, drop (length (exp_part s)) s))"

definition scan_frac :: "string \<Rightarrow> string \<Rightarrow> string parsed" where
  "scan_frac lit s =
    (if frac_part s = [] then scan_exp lit s
     else if frac_part s = ''.''
       then Inl (number_error (tl s) ''after decimal point in numeric literal'')
     else scan_exp (lit @ frac_part s) (drop (length (frac_part s)) s))"

definition scan_int :: "string \<Rightarrow> string \<Rightarrow> string parsed" where
  "scan_int lit s =
    (if int_part s = [] then Inl (number_error s ''in numeric literal'')
     else scan_frac (lit @ int_part s) (drop (length (int_part s)) s))"

definition scan_number :: "string \<Rightarrow> string parsed" where
  "scan_number s = (if take 1 s = ''-'' then scan_int ''-'' (tl s) else scan_int [] s)"

text \<open>
  The four hexadecimal digits of an escape, and the rune of a surrogate pair
  (\<^verbatim>\<open>utf16.DecodeRune\<close>).
\<close>

definition hexval :: "char \<Rightarrow> int option" where
  "hexval c =
    (if 0x30 \<le> byte c \<and> byte c \<le> 0x39 then Some (byte c - 0x30)
     else if 0x61 \<le> byte c \<and> byte c \<le> 0x66 then Some (byte c - 0x61 + 10)
     else if 0x41 \<le> byte c \<and> byte c \<le> 0x46 then Some (byte c - 0x41 + 10)
     else None)"

definition isHex :: "char \<Rightarrow> bool" where
  "isHex c \<longleftrightarrow> hexval c \<noteq> None"

definition u4 :: "string \<Rightarrow> int option" where
  "u4 s =
    (if length (takeWhile isHex (take 4 s)) = 4
     then Some (foldl (\<lambda>a c. a * 16 + the (hexval c)) 0 (take 4 s))
     else None)"

text \<open>\<^verbatim>\<open>getu4\<close>: the value of an escape (a backslash, \<open>u\<close>, four digits) at the head of a string.\<close>

definition getu4 :: "string \<Rightarrow> int option" where
  "getu4 s = (if take 2 s = [backslash, CHR ''u''] then u4 (drop 2 s) else None)"

definition isSurrogate :: "int \<Rightarrow> bool" where
  "isSurrogate r \<longleftrightarrow> 0xD800 \<le> r \<and> r < 0xE000"

definition utf16_DecodeRune :: "int \<Rightarrow> int \<Rightarrow> int" where
  "utf16_DecodeRune r1 r2 =
    (if 0xD800 \<le> r1 \<and> r1 < 0xDC00 \<and> 0xDC00 \<le> r2 \<and> r2 < 0xE000
     then (r1 - 0xD800) * 0x400 + (r2 - 0xDC00) + 0x10000
     else RuneError)"

text \<open>
  The rune that an escape with value \<open>rr\<close> denotes, given the input \<open>s\<close> after it, and
  the number of bytes of \<open>s\<close> that belong to it: six when \<open>rr\<close> is the first half of a
  surrogate pair whose second half follows, none otherwise. A surrogate without its
  partner is U+FFFD.
\<close>

definition escaped_rune :: "int \<Rightarrow> string \<Rightarrow> int \<times> nat" where
  "escaped_rune rr s =
    (if isSurrogate rr then
       (case getu4 s of
          None \<Rightarrow> (RuneError, 0)
        | Some rr1 \<Rightarrow>
            if utf16_DecodeRune rr rr1 \<noteq> RuneError then (utf16_DecodeRune rr rr1, 6)
            else (RuneError, 0))
     else (rr, 0))"

definition simple_escape :: "char \<Rightarrow> char option" where
  "simple_escape e =
    (if e = dquote \<or> e = backslash \<or> e = CHR ''/'' then Some e
     else if e = CHR ''b'' then Some (CHR 0x08)
     else if e = CHR ''f'' then Some (CHR 0x0C)
     else if e = CHR ''n'' then Some (CHR 0x0A)
     else if e = CHR ''r'' then Some (CHR 0x0D)
     else if e = CHR ''t'' then Some (CHR 0x09)
     else None)"

definition u4_error :: "string \<Rightarrow> perror" where
  "u4_error s =
    number_error (dropWhile isHex (take 4 s))
      (''in '' @ [backslash] @ ''u hexadecimal character escape'')"

text \<open>
  A string literal after its opening quote, scanned and unquoted in one pass; \<open>acc\<close>
  holds the bytes of the result so far, last byte first. A byte that is not UTF-8
  becomes U+FFFD.
\<close>

fun string_body :: "string \<Rightarrow> string \<Rightarrow> string parsed" where
  "string_body [] acc = Inl eof"
| "string_body (c # cs) acc =
    (if c = dquote then Inr (rev acc, cs)
     else if c = backslash then
       (if cs = [] then Inl eof
        else if simple_escape (hd cs) \<noteq> None
          then string_body (tl cs) (the (simple_escape (hd cs)) # acc)
        else if hd cs \<noteq> CHR ''u'' then Inl (invalid (hd cs) ''in string escape code'')
        else if u4 (tl cs) = None then Inl (u4_error (tl cs))
        else string_body
               (drop (5 + snd (escaped_rune (the (u4 (tl cs))) (drop 5 cs))) cs)
               (rev (utf8_EncodeRune (fst (escaped_rune (the (u4 (tl cs))) (drop 5 cs)))) @ acc))
     else if byte c < 0x20 then Inl (invalid c ''in string literal'')
     else if byte c < 0x80 then string_body cs (c # acc)
     else string_body (drop (snd (utf8_DecodeRune (c # cs)) - 1) cs)
            (rev (utf8_EncodeRune (fst (utf8_DecodeRune (c # cs)))) @ acc))"

text \<open>
  Values, the members of an object and the elements of an array. \<open>members\<close> starts where
  a key is expected, \<open>elements\<close> where a value is; both hold what they have read so far,
  last first. The first argument is fuel: every call passes on one unit less.
\<close>

fun parse_value :: "nat \<Rightarrow> string \<Rightarrow> json parsed"
and members :: "nat \<Rightarrow> string \<Rightarrow> (string \<times> json) list \<Rightarrow> json parsed"
and elements :: "nat \<Rightarrow> string \<Rightarrow> json list \<Rightarrow> json parsed" where
  "parse_value 0 s = Inl Fuel"
| "parse_value (Suc n) s =
    (case skip_ws s of
       [] \<Rightarrow> Inl eof
     | c # cs \<Rightarrow>
         if c = CHR ''{'' then
           (if take 1 (skip_ws cs) = ''}'' then Inr (JObject [], tl (skip_ws cs))
            else members n cs [])
         else if c = CHR ''['' then
           (if take 1 (skip_ws cs) = '']'' then Inr (JArray [], tl (skip_ws cs))
            else elements n cs [])
         else if c = dquote then
           (case string_body cs [] of Inl e \<Rightarrow> Inl e | Inr (x, rest) \<Rightarrow> Inr (JString x, rest))
         else if c = CHR ''-'' \<or> isDigit c then
           (case scan_number (c # cs) of Inl e \<Rightarrow> Inl e | Inr (x, rest) \<Rightarrow> Inr (JNumber x, rest))
         else if c = CHR ''t'' then
           (case literal ''true'' ''rue'' cs of Inl e \<Rightarrow> Inl e | Inr rest \<Rightarrow> Inr (JBool True, rest))
         else if c = CHR ''f'' then
           (case literal ''false'' ''alse'' cs of Inl e \<Rightarrow> Inl e | Inr rest \<Rightarrow> Inr (JBool False, rest))
         else if c = CHR ''n'' then
           (case literal ''null'' ''ull'' cs of Inl e \<Rightarrow> Inl e | Inr rest \<Rightarrow> Inr (JNull, rest))
         else Inl (invalid c ''looking for beginning of value''))"
| "members 0 s acc = Inl Fuel"
| "members (Suc n) s acc =
    (case skip_ws s of
       [] \<Rightarrow> Inl eof
     | c # cs \<Rightarrow>
         if c \<noteq> dquote then Inl (invalid c ''looking for beginning of object key string'')
         else
           (case string_body cs [] of
              Inl e \<Rightarrow> Inl e
            | Inr (k, rest) \<Rightarrow>
                (case skip_ws rest of
                   [] \<Rightarrow> Inl eof
                 | c1 # rest1 \<Rightarrow>
                     if c1 \<noteq> CHR '':'' then Inl (invalid c1 ''after object key'')
                     else
                       (case parse_value n rest1 of
                          Inl e \<Rightarrow> Inl e
                        | Inr (v, rest2) \<Rightarrow>
                            (case skip_ws rest2 of
                               [] \<Rightarrow> Inl eof
                             | c2 # rest3 \<Rightarrow>
                                 if c2 = CHR '','' then members n rest3 ((k, v) # acc)
                                 else if c2 = CHR ''}''
                                   then Inr (JObject (rev ((k, v) # acc)), rest3)
                                 else Inl (invalid c2 ''after object key:value pair''))))))"
| "elements 0 s acc = Inl Fuel"
| "elements (Suc n) s acc =
    (case parse_value n s of
       Inl e \<Rightarrow> Inl e
     | Inr (v, rest) \<Rightarrow>
         (case skip_ws rest of
            [] \<Rightarrow> Inl eof
          | c # rest1 \<Rightarrow>
              if c = CHR '','' then elements n rest1 (v # acc)
              else if c = CHR '']'' then Inr (JArray (rev (v # acc)), rest1)
              else Inl (invalid c ''after array element'')))"

text \<open>
  The whole input: one value, then white space only. Two calls in a row consume a byte
  at least, so fuel above twice the length of the input is not used up.
\<close>

definition parse_json :: "string \<Rightarrow> perror + json" where
  "parse_json s =
    (case parse_value (2 * length s + 2) s of
       Inl e \<Rightarrow> Inl e
     | Inr (v, rest) \<Rightarrow>
         (case skip_ws rest of
            [] \<Rightarrow> Inr v
          | c # cs \<Rightarrow> Inl (invalid c ''after top-level value'')))"

text \<open>
  Storing a tree in a \<^verbatim>\<open>Response\<close>. A key selects the field whose name it is, or else the
  first field whose name it is up to case: \<open>equalFold\<close> is \<^verbatim>\<open>equalFoldRight\<close> of
  \<^verbatim>\<open>encoding/json\<close>, in which U+017F stands for an \<open>s\<close> and U+212A for a \<open>k\<close>.
\<close>

datatype field = Message | Error_field | StatusCode_field

definition fields :: "(string \<times> field) list" where
  "fields = [(''message'', Message), (''error'', Error_field), (''statusCode'', StatusCode_field)]"

definition caseMask :: "char \<Rightarrow> int" where
  "caseMask c = (if byte c div 0x20 mod 2 = 1 then byte c - 0x20 else byte c)"

fun equalFold :: "string \<Rightarrow> string \<Rightarrow> bool" where
  "equalFold [] t = (t = [])"
| "equalFold (sb # s) [] = False"
| "equalFold (sb # s) (tb # t) =
    (if byte tb < 0x80 then
       (sb = tb \<or> (0x41 \<le> caseMask sb \<and> caseMask sb \<le> 0x5A \<and> caseMask sb = caseMask tb))
       \<and> equalFold s t
     else if sb = CHR ''s'' \<or> sb = CHR ''S''
       then fst (utf8_DecodeRune (tb # t)) = 0x17F \<and> equalFold s (drop 1 t)
     else if sb = CHR ''k'' \<or> sb = CHR ''K''
       then fst (utf8_DecodeRune (tb # t)) = 0x212A \<and> equalFold s (drop 2 t)
     else False)"

definition find_field :: "string \<Rightarrow> field option" where
  "find_field key =
    (case find (\<lambda>f. fst f = key) fields of
       Some f \<Rightarrow> Some (snd f)
     | None \<Rightarrow> map_option snd (find (\<lambda>f. equalFold (fst f) key) fields))"

text \<open>
  \<^verbatim>\<open>strconv.ParseInt(s, 10, 64)\<close> on a number literal of JSON: the literal has to be an
  integer, without fraction and exponent, that fits 64 bits (the size of \<^verbatim>\<open>int\<close> on the
  platforms where it has 64 bits).
\<close>

definition digits_value :: "string \<Rightarrow> int" where
  "digits_value ds = foldl (\<lambda>a c. a * 10 + (byte c - 0x30)) 0 ds"

definition ParseInt :: "string \<Rightarrow> int option" where
  "ParseInt s =
    (if take 1 s = ''-'' then
       (if tl s \<noteq> [] \<and> list_all isDigit (tl s) \<and> digits_value (tl s) \<le> 2 ^ 63
        then Some (- digits_value (tl s)) else None)
     else
       (if s \<noteq> [] \<and> list_all isDigit s \<and> digits_value s < 2 ^ 63
        then Some (digits_value s) else None))"

text \<open>The name of a kind of JSON value in the text of an \<^verbatim>\<open>UnmarshalTypeError\<close>.\<close>

fun kind :: "json \<Rightarrow> string" where
  "kind JNull = ''null''"
| "kind (JBool b) = ''bool''"
| "kind (JNumber n) = ''number''"
| "kind (JString x) = ''string''"
| "kind (JArray xs) = ''array''"
| "kind (JObject ms) = ''object''"

definition type_error :: "string \<Rightarrow> string \<Rightarrow> string \<Rightarrow> goerror" where
  "type_error v name ty =
     ErrorString (''json: cannot unmarshal '' @ v @ '' into Go struct field Response.'' @ name
                  @ '' of type '' @ ty)"

text \<open>
  One member stored in its field: the new payload and the error, if the value does not
  fit the field. \<^verbatim>\<open>null\<close> changes nothing.
\<close>

fun store :: "field \<Rightarrow> json \<Rightarrow> Response \<Rightarrow> Response \<times> goerror option" where
  "store f JNull r = (r, None)"
| "store Message (JString x) r = (r\<lparr>r_Message := x\<rparr>, None)"
| "store Message v r = (r, Some (type_error (kind v) ''message'' ''string''))"
| "store Error_field (JString x) r = (r\<lparr>r_Error := x\<rparr>, None)"
| "store Error_field v r = (r, Some (type_error (kind v) ''error'' ''string''))"
| "store StatusCode_field (JNumber n) r =
    (case ParseInt n of
       Some i \<Rightarrow> (r\<lparr>r_StatusCode := i\<rparr>, None)
     | None \<Rightarrow> (r, Some (type_error (''number '' @ n) ''statusCode'' ''int'')))"
| "store StatusCode_field v r = (r, Some (type_error (kind v) ''statusCode'' ''int''))"

text \<open>
  The members of an object in their order; a key that selects no field is skipped. The
  decoder goes on after an error and returns the first one.
\<close>

fun store_members ::
  "(string \<times> json) list \<Rightarrow> Response \<Rightarrow> goerror option \<Rightarrow> Response \<times> goerror option" where
  "store_members [] r e = (r, e)"
| "store_members ((k, v) # ms) r e =
    (case find_field k of
       None \<Rightarrow> store_members ms r e
     | Some f \<Rightarrow>
         store_members ms (fst (store f v r)) (if e = None then snd (store f v r) else e))"

text \<open>
  \<^verbatim>\<open>json.Unmarshal(data, &tmp)\<close> for a fresh \<^verbatim>\<open>tmp\<close> of type \<^verbatim>\<open>Response\<close>: the error, or the
  payload that \<^verbatim>\<open>tmp\<close> holds afterwards. The input \<^verbatim>\<open>null\<close> leaves \<^verbatim>\<open>tmp\<close> as it is; a value
  that is neither \<^verbatim>\<open>null\<close> nor an object is an error. The text given to \<open>Fuel\<close> is
  never seen: \<open>parse_json\<close> does not return \<open>Fuel\<close> (lemma \<open>parse_json_not_Fuel\<close>).
\<close>

definition zero_Response :: Response where
  "zero_Response = \<lparr>r_Message = [], r_Error = [], r_StatusCode = 0\<rparr>"

definition perror_text :: "perror \<Rightarrow> string" where
  "perror_text e = (case e of Syntax msg \<Rightarrow> msg | Fuel \<Rightarrow> ''exceeded max depth'')"

definition json_Unmarshal :: "string \<Rightarrow> goerror + Response" where
  "json_Unmarshal data =
    (case parse_json data of
       Inl e \<Rightarrow> Inl (ErrorString (perror_text e))
     | Inr (JObject ms) \<Rightarrow>
         (case snd (store_members ms zero_Response None) of
            None \<Rightarrow> Inr (fst (store_members ms zero_Response None))
          | Some e \<Rightarrow> Inl e)
     | Inr JNull \<Rightarrow> Inr zero_Response
     | Inr v \<Rightarrow>
         Inl (ErrorString (''json: cannot unmarshal '' @ kind v
                           @ '' into Go value of type httperr.Response'')))"

subsection \<open>Reading a response\<close>

text \<open>
  What \<^verbatim>\<open>FromResponse\<close> uses of an \<^verbatim>\<open>*http.Response\<close>: the status code, the header map,
  and the two results of \<^verbatim>\<open>ioutil.ReadAll(r.Body)\<close>, the bytes read and the error, if any.
  The deferred \<^verbatim>\<open>r.Body.Close()\<close>, whose result the function drops, is left out.
\<close>

record http_Response =
  resp_StatusCode :: int
  resp_Header :: "string \<rightharpoonup> string list"
  resp_Body :: "string \<times> goerror option"

text \<open>\<^verbatim>\<open>Header.Get\<close> for a key in canonical form, as \<^verbatim>\<open>Content-Type\<close> is.\<close>

definition Header_Get :: "(string \<rightharpoonup> string list) \<Rightarrow> string \<Rightarrow> string" where
  "Header_Get h k = (case h k of Some (v # vs) \<Rightarrow> v | _ \<Rightarrow> [])"

text \<open>
  \<^verbatim>\<open>xerrors.New\<close> and \<^verbatim>\<open>xerrors.Errorf\<close> return errors that carry their text; the verb \<^verbatim>\<open>%s\<close>
  prints the text of an error operand and \<^verbatim>\<open>%q\<close> quotes it.
\<close>

definition FromResponse :: "http_Response \<Rightarrow> goerror" where
  "FromResponse r =
    (case resp_Body r of
       (data, Some e) \<Rightarrow>
         New (resp_StatusCode r)
           (Some (ErrorString (''Failed to read response body: '' @ strconv_Quote (Error e))))
     | (data, None) \<Rightarrow>
         (let mediatype = fst (mime_ParseMediaType (Header_Get (resp_Header r) ''Content-Type''))
          in if mediatype = ''text/plain'' \<or> mediatype = ''text/html'' \<or> mediatype = ''text/xml''
             then New (resp_StatusCode r) (Some (ErrorString data))
             else
               (case json_Unmarshal data of
                  Inl e \<Rightarrow>
                    New (resp_StatusCode r)
                      (Some (ErrorString (''Error parsing response: '' @ Error e)))
                | Inr tmp \<Rightarrow> New (resp_StatusCode r) (Some (ErrorString (r_Message tmp))))))"



subsection \<open>Writing a response\<close>

text \<open>
  \<^verbatim>\<open>http.ResponseWriter\<close> is an interface of the transport. The model keeps what the
  package does to it: the header map that \<^verbatim>\<open>Header()\<close> returns, the calls of
  \<^verbatim>\<open>WriteHeader\<close> and \<^verbatim>\<open>Write\<close> in the order they are made, and, as the one thing the
  transport decides, the error that \<^verbatim>\<open>Write\<close> returns for the bytes it is given. What an
  implementation does with a status code it rejects is outside the package.
\<close>

datatype wcall = WriteHeader int | Write string

record ResponseWriter =
  w_Header :: "string \<rightharpoonup> string list"
  w_calls :: "wcall list"
  w_Write :: "string \<Rightarrow> goerror option"

definition Header_Set :: "ResponseWriter \<Rightarrow> string \<Rightarrow> string \<Rightarrow> ResponseWriter" where
  "Header_Set w k v = w\<lparr>w_Header := (w_Header w)(k \<mapsto> [v])\<rparr>"

definition call :: "ResponseWriter \<Rightarrow> wcall \<Rightarrow> ResponseWriter" where
  "call w c = w\<lparr>w_calls := w_calls w @ [c]\<rparr>"

text \<open>
  \<^verbatim>\<open>Encode\<close> of a \<^verbatim>\<open>json.Encoder\<close> on the writer: the value is marshalled by \<open>marshal\<close>; an error
  of the marshaller is returned and nothing is written, otherwise the encoding and a
  newline go to the writer in one \<^verbatim>\<open>Write\<close>, whose error is returned.
\<close>

definition Encode ::
  "('a \<Rightarrow> goerror + string) \<Rightarrow> ResponseWriter \<Rightarrow> 'a \<Rightarrow> ResponseWriter \<times> goerror option" where
  "Encode marshal w v =
    (case marshal v of
       Inl e \<Rightarrow> (w, Some e)
     | Inr b \<Rightarrow> (call w (Write (b @ [CHR 0x0A])), w_Write w (b @ [CHR 0x0A])))"

text \<open>
  \<^verbatim>\<open>json.Marshal\<close> on an error value. A \<^verbatim>\<open>*httpError\<close> has the method \<^verbatim>\<open>MarshalJSON\<close>, whose
  output (compact JSON of \<^verbatim>\<open>json.Marshal\<close>) the encoder copies. A third-party error is
  encoded by its \<^verbatim>\<open>MarshalJSON\<close> when it has one (an error it returns is returned as an
  error with that text) and by reflection otherwise. A value with unexported fields
  only, as those of \<^verbatim>\<open>errors.New\<close>, is the empty object.
\<close>

fun json_Marshal_error :: "goerror \<Rightarrow> goerror + string" where
  "json_Marshal_error (HTTP h) = MarshalJSON h"
| "json_Marshal_error (Custom c) =
    (case ce_MarshalJSON c of
       Some (Inl e) \<Rightarrow> Inl (ErrorString e)
     | Some (Inr b) \<Rightarrow> Inr b
     | None \<Rightarrow> (case ce_reflect c of Inl e \<Rightarrow> Inl (ErrorString e) | Inr b \<Rightarrow> Inr b))"
| "json_Marshal_error (ErrorString s) = Inr ''{}''"

text \<open>
  The type assertions \<^verbatim>\<open>err.(json.Unmarshaler)\<close> and, for comparison,
  \<^verbatim>\<open>err.(json.Marshaler)\<close>: \<^verbatim>\<open>*httpError\<close> has \<^verbatim>\<open>MarshalJSON\<close> and no \<^verbatim>\<open>UnmarshalJSON\<close>.
\<close>

fun as_Unmarshaler :: "goerror \<Rightarrow> bool" where
  "as_Unmarshaler (ErrorString s) = False"
| "as_Unmarshaler (HTTP h) = False"
| "as_Unmarshaler (Custom c) = ce_Unmarshaler c"

fun as_Marshaler :: "goerror \<Rightarrow> bool" where
  "as_Marshaler (ErrorString s) = False"
| "as_Marshaler (HTTP h) = True"
| "as_Marshaler (Custom c) = (ce_MarshalJSON c \<noteq> None)"

text \<open>
  The argument \<^verbatim>\<open>x interface{}\<close> of \<^verbatim>\<open>RespondJSON\<close>: either the assertion \<^verbatim>\<open>x.(error)\<close>
  succeeds, or \<open>x\<close> is some other value (\<^verbatim>\<open>nil\<close> included), of which the model needs its
  JSON encoding only: \<open>marshal\<close> is \<^verbatim>\<open>json.Marshal\<close> on such values.
\<close>

datatype 'v anyvalue = IsErr goerror | NotErr 'v

definition RespondJSON ::
  "('v \<Rightarrow> goerror + string) \<Rightarrow> ResponseWriter \<Rightarrow> 'v anyvalue
     \<Rightarrow> ResponseWriter \<times> goerror option" where
  "RespondJSON marshal w x =
    (let w = Header_Set w ''Content-Type'' ''application/json'' in
     case x of
       IsErr e \<Rightarrow>
         (let code = (case as_StatusCoder e of
                        Some c \<Rightarrow> c
                      | None \<Rightarrow> StatusInternalServerError);
              w = call w (WriteHeader code)
          in if as_Unmarshaler e then Encode json_Marshal_error w e
             else Encode json_Marshal_error w (New code (Some e)))
     | NotErr v \<Rightarrow> Encode marshal (call w (WriteHeader StatusOK)) v)"

text \<open>The calls that an encoding result leads to: one \<^verbatim>\<open>Write\<close>, or none after an error.\<close>

definition writes :: "goerror + string \<Rightarrow> wcall list" where
  "writes r = (case r of Inl e \<Rightarrow> [] | Inr b \<Rightarrow> [Write (b @ [CHR 0x0A])])"

section \<open>Properties\<close>

subsection \<open>The parsers use no fuel they do not have\<close>

text \<open>
  The JSON parser takes fuel, and the loop over media parameters tests that its
  argument gets shorter. Neither device changes a result: the parser never runs out of
  the fuel that \<open>parse_json\<close> gives it, and the test of the loop always succeeds.
\<close>

lemma invalid_not_Fuel [simp]:
  "invalid c ctx \<noteq> Fuel" "eof \<noteq> Fuel" "number_error s ctx \<noteq> Fuel" "u4_error s \<noteq> Fuel"
  by (auto simp: invalid_def eof_def number_error_def u4_error_def split: list.splits)

lemma string_body_rest: "string_body s acc = Inr (x, r) \<Longrightarrow> length r < length s"
  by (induction s acc rule: string_body.induct) (auto split: if_splits)

lemma string_body_not_Fuel: "string_body s acc \<noteq> Inl Fuel"
  by (induction s acc rule: string_body.induct) (auto split: if_splits)

lemma literal_rest: "literal name es s = Inr r \<Longrightarrow> length r \<le> length s"
  by (induction name es s rule: literal.induct) (auto split: if_splits)

lemma literal_not_Fuel: "literal name es s \<noteq> Inl Fuel"
  by (induction name es s rule: literal.induct) (auto split: if_splits)

lemma scan_exp_rest: "scan_exp lit s = Inr (x, r) \<Longrightarrow> length r \<le> length s"
  by (auto simp: scan_exp_def split: if_splits)

lemma scan_frac_rest: "scan_frac lit s = Inr (x, r) \<Longrightarrow> length r \<le> length s"
  by (auto simp: scan_frac_def split: if_splits dest!: scan_exp_rest)

lemma scan_int_rest:
  assumes "scan_int lit s = Inr (x, r)"
  shows "length r < length s"
proof -
  from assms have ne: "int_part s \<noteq> []"
    and fr: "scan_frac (lit @ int_part s) (drop (length (int_part s)) s) = Inr (x, r)"
    by (auto simp: scan_int_def split: if_splits)
  from ne have "s \<noteq> []"
    by (auto simp: int_part_def)
  then have "0 < length s"
    by simp
  moreover from scan_frac_rest [OF fr] have "length r \<le> length s - length (int_part s)"
    by simp
  moreover from ne have "0 < length (int_part s)"
    by simp
  ultimately show ?thesis
    by arith
qed

lemma scan_number_rest: "scan_number s = Inr (x, r) \<Longrightarrow> length r < length s"
  by (cases s) (auto simp: scan_number_def split: if_splits dest!: scan_int_rest)

lemma scan_number_not_Fuel: "scan_number s \<noteq> Inl Fuel"
  by (auto simp: scan_number_def scan_int_def scan_frac_def scan_exp_def)

lemma skip_ws_length: "length (skip_ws s) \<le> length s"
  by (simp add: skip_ws_def length_dropWhile_le)

lemma skip_ws_Cons: "skip_ws s = c # cs \<Longrightarrow> length cs < length s"
  using skip_ws_length [of s] by simp

lemma tl_skip_ws: "length (tl (skip_ws s)) \<le> length s"
  using skip_ws_length [of s] by simp

lemma rest_shorter:
  "parse_value n s = Inr (v, r) \<Longrightarrow> length r < length s"
  "members n s ms = Inr (v, r) \<Longrightarrow> length r < length s"
  "elements n s es = Inr (v, r) \<Longrightarrow> length r < length s"
proof (induction n s and n s ms and n s es arbitrary: v r and v r and v r
    rule: parse_value_members_elements.induct)
  case (1 s)
  then show ?case by simp
next
  case (2 n s)
  from "2.prems" obtain c cs where s: "skip_ws s = c # cs"
    by (auto split: list.splits)
  then have cs: "length cs < length s"
    by (rule skip_ws_Cons)
  from s have ccs: "length (c # cs) \<le> length s"
    using skip_ws_length [of s] by simp
  from "2.prems" s have "length r \<le> length cs"
    using "2.IH" [OF s] tl_skip_ws [of cs] ccs
    by (auto split: if_splits sum.splits prod.splits
        dest!: string_body_rest scan_number_rest literal_rest)
  with cs show ?case by simp
next
  case (3 s acc)
  then show ?case by simp
next
  case (4 n s acc)
  from "4.prems" obtain c cs where s: "skip_ws s = c # cs" and c: "c = dquote"
    by (auto split: list.splits if_splits)
  from "4.prems" s c obtain k rest where k: "string_body cs [] = Inr (k, rest)"
    by (auto split: sum.splits)
  from "4.prems" s c k obtain c1 rest1 where r1: "skip_ws rest = c1 # rest1" and c1: "c1 = CHR '':''"
    by (auto split: list.splits if_splits)
  from "4.prems" s c k r1 c1 obtain v1 rest2 where v1: "parse_value n rest1 = Inr (v1, rest2)"
    by (auto split: sum.splits)
  from "4.prems" s c k r1 c1 v1 obtain c2 rest3 where r3: "skip_ws rest2 = c2 # rest3"
    by (auto split: list.splits)
  have c_ne: "\<not> c \<noteq> dquote" "\<not> c1 \<noteq> CHR '':''"
    using c c1 by simp_all
  have "length rest3 < length rest2"
    using r3 by (rule skip_ws_Cons)
  also have "length rest2 < length rest1"
    using "4.IH"(1) [OF s c_ne(1) k refl r1 c_ne(2)] v1 by simp
  also have "length rest1 < length rest"
    using r1 by (rule skip_ws_Cons)
  also have "length rest < length cs"
    using k by (rule string_body_rest)
  also have "length cs < length s"
    using s by (rule skip_ws_Cons)
  finally have a: "length rest3 < length s" .
  show ?case
  proof (cases "c2 = CHR '',''")
    case True
    with "4.prems" s c k r1 c1 v1 r3 have "members n rest3 ((k, v1) # acc) = Inr (v, r)"
      by simp
    from "4.IH"(2) [OF s c_ne(1) k refl r1 c_ne(2) v1 refl r3 True this] a show ?thesis
      by simp
  next
    case False
    with "4.prems" s c k r1 c1 v1 r3 have "r = rest3"
      by (auto split: if_splits)
    with a show ?thesis by simp
  qed
next
  case (5 s acc)
  then show ?case by simp
next
  case (6 n s acc)
  from "6.prems" obtain v1 rest where v1: "parse_value n s = Inr (v1, rest)"
    by (auto split: sum.splits)
  from "6.prems" v1 obtain c rest1 where r1: "skip_ws rest = c # rest1"
    by (auto split: list.splits)
  have "length rest1 < length rest"
    using r1 by (rule skip_ws_Cons)
  also have "length rest < length s"
    using "6.IH"(1) v1 by simp
  finally have a: "length rest1 < length s" .
  show ?case
  proof (cases "c = CHR '',''")
    case True
    with "6.prems" v1 r1 have "elements n rest1 (v1 # acc) = Inr (v, r)"
      by simp
    from "6.IH"(2) [OF v1 refl r1 True this] a show ?thesis
      by simp
  next
    case False
    with "6.prems" v1 r1 have "r = rest1"
      by (auto split: if_splits)
    with a show ?thesis by simp
  qed
qed

lemma enough_fuel:
  "2 * length s + 1 < n \<Longrightarrow> parse_value n s \<noteq> Inl Fuel"
  "2 * length s + 1 < n \<Longrightarrow> members n s ms \<noteq> Inl Fuel"
  "2 * length s + 2 < n \<Longrightarrow> elements n s es \<noteq> Inl Fuel"
proof (induction n s and n s ms and n s es rule: parse_value_members_elements.induct)
  case (1 s)
  then show ?case by simp
next
  case (2 n s)
  show ?case
  proof
    assume f: "parse_value (Suc n) s = Inl Fuel"
    then obtain c cs where s: "skip_ws s = c # cs"
      by (auto simp: eof_def split: list.splits)
    then have cs: "length cs < length s"
      by (rule skip_ws_Cons)
    with "2.prems" have m: "2 * length cs + 1 < n" and e: "2 * length cs + 2 < n"
      by simp_all
    show False
    proof (cases "c = CHR ''{''")
      case True
      with f s have "take 1 (skip_ws cs) \<noteq> ''}''" and "members n cs [] = Inl Fuel"
        by (simp_all split: if_splits)
      with "2.IH"(1) [OF s True _ m] show False
        by simp
    next
      case nb: False
      show False
      proof (cases "c = CHR ''[''")
        case True
        with f s nb have "take 1 (skip_ws cs) \<noteq> '']''" and "elements n cs [] = Inl Fuel"
          by (simp_all split: if_splits)
        with "2.IH"(2) [OF s nb True _ e] show False
          by simp
      next
        case False
        with f s nb have
          "(\<exists>x. string_body cs [] = Inl x \<and> x = Fuel)
           \<or> (\<exists>x. scan_number (c # cs) = Inl x \<and> x = Fuel)
           \<or> (\<exists>x name es. literal name es cs = Inl x \<and> x = Fuel)
           \<or> (\<exists>ctx. invalid c ctx = Fuel)"
          by (simp split: if_splits sum.splits prod.splits) blast+
        then show False
          by (auto simp: string_body_not_Fuel scan_number_not_Fuel literal_not_Fuel)
      qed
    qed
  qed
next
  case (3 s acc)
  then show ?case by simp
next
  case (4 n s acc)
  show ?case
  proof
    assume f: "members (Suc n) s acc = Inl Fuel"
    then obtain c cs where s: "skip_ws s = c # cs" and c: "c = dquote"
      by (auto simp: eof_def split: list.splits if_splits)
    from f s c obtain k rest where k: "string_body cs [] = Inr (k, rest)"
      by (cases "string_body cs []") (auto simp: string_body_not_Fuel)
    from f s c k obtain c1 rest1 where r1: "skip_ws rest = c1 # rest1" and c1: "c1 = CHR '':''"
      by (auto simp: eof_def split: list.splits if_splits)
    have c_ne: "\<not> c \<noteq> dquote" "\<not> c1 \<noteq> CHR '':''"
      using c c1 by simp_all
    have "length rest1 < length rest"
      using r1 by (rule skip_ws_Cons)
    also have "length rest < length cs"
      using k by (rule string_body_rest)
    also have "length cs < length s"
      using s by (rule skip_ws_Cons)
    finally have l1: "length rest1 < length s" .
    with "4.prems" have "2 * length rest1 + 1 < n"
      by simp
    from "4.IH"(1) [OF s c_ne(1) k refl r1 c_ne(2) this]
    have nf: "parse_value n rest1 \<noteq> Inl Fuel" .
    with f s c k r1 c1 obtain v1 rest2 where v1: "parse_value n rest1 = Inr (v1, rest2)"
      by (cases "parse_value n rest1") auto
    from f s c k r1 c1 v1 obtain c2 rest3 where r3: "skip_ws rest2 = c2 # rest3"
      by (auto simp: eof_def split: list.splits)
    have "length rest3 < length rest2"
      using r3 by (rule skip_ws_Cons)
    also have "length rest2 < length rest1"
      using v1 by (rule rest_shorter)
    finally have "length rest3 < length s"
      using l1 by simp
    with "4.prems" have b: "2 * length rest3 + 1 < n"
      by simp
    from f s c k r1 c1 v1 r3 have c2: "c2 = CHR '',''"
      and g: "members n rest3 ((k, v1) # acc) = Inl Fuel"
      by (auto split: if_splits)
    from "4.IH"(2) [OF s c_ne(1) k refl r1 c_ne(2) v1 refl r3 c2 b] g show False
      by simp
  qed
next
  case (5 s acc)
  then show ?case by simp
next
  case (6 n s acc)
  show ?case
  proof
    assume f: "elements (Suc n) s acc = Inl Fuel"
    from "6.prems" have "2 * length s + 1 < n"
      by simp
    from "6.IH"(1) [OF this] have "parse_value n s \<noteq> Inl Fuel" .
    with f obtain v1 rest where v1: "parse_value n s = Inr (v1, rest)"
      by (cases "parse_value n s") auto
    from f v1 obtain c rest1 where r1: "skip_ws rest = c # rest1"
      by (auto simp: eof_def split: list.splits)
    have "length rest1 < length rest"
      using r1 by (rule skip_ws_Cons)
    also have "length rest < length s"
      using v1 by (rule rest_shorter)
    finally have "length rest1 < length s" .
    with "6.prems" have b: "2 * length rest1 + 2 < n"
      by simp
    from f v1 r1 have c: "c = CHR '',''" and g: "elements n rest1 (v1 # acc) = Inl Fuel"
      by (auto split: if_splits)
    from "6.IH"(2) [OF v1 refl r1 c b] g show False
      by simp
  qed
qed

lemma parse_json_not_Fuel: "parse_json s \<noteq> Inl Fuel"
proof -
  have "parse_value (2 * length s + 2) s \<noteq> Inl Fuel"
    by (rule enough_fuel(1)) simp
  then show ?thesis
    unfolding parse_json_def
    by (auto simp del: parse_value.simps split: sum.splits list.splits)
qed

lemma json_Unmarshal_syntax:
  "parse_json s = Inl e \<Longrightarrow> \<exists>msg. e = Syntax msg \<and> json_Unmarshal s = Inl (ErrorString msg)"
  using parse_json_not_Fuel [of s]
  by (cases e) (auto simp: json_Unmarshal_def perror_text_def)

text \<open>The same for the parameters of a media type.\<close>

lemma TrimLeft_space_length: "length (TrimLeft_space s) \<le> length s"
  by (induction s rule: TrimLeft_space.induct) (auto intro: le_trans)

lemma consumeToken_length: "length (snd (consumeToken s)) \<le> length s"
  by (simp add: consumeToken_def length_dropWhile_le)

lemma quoted_length: "quoted s acc = Some (x, r) \<Longrightarrow> length r \<le> length s"
  by (induction s acc rule: quoted.induct) (auto split: if_splits)

lemma consumeValue_length: "length (snd (consumeValue s)) \<le> length s"
  by (cases "quoted (tl s) []")
     (auto simp: consumeValue_def consumeToken_length dest!: quoted_length)

lemma consumeMediaParam_length:
  assumes "fst (consumeMediaParam v) \<noteq> []"
  shows "length (snd (snd (consumeMediaParam v))) < length v"
proof -
  from assms have semi: "take 1 (TrimLeft_space v) = '';''"
    and rest: "snd (snd (consumeMediaParam v)) = snd (consumeValue (after_equals v))"
    by (auto simp: consumeMediaParam_def split: if_splits)
  from semi have "TrimLeft_space v \<noteq> []"
    by auto
  then have "length (tl (TrimLeft_space v)) < length v"
    using TrimLeft_space_length [of v] by (cases "TrimLeft_space v") auto
  moreover have "length (after_semicolon v) \<le> length (tl (TrimLeft_space v))"
    unfolding after_semicolon_def by (rule TrimLeft_space_length)
  moreover have "length (after_name v) \<le> length (after_semicolon v)"
    unfolding after_name_def
    by (rule le_trans [OF TrimLeft_space_length consumeToken_length])
  moreover have "length (after_equals v) \<le> length (after_name v)"
    unfolding after_equals_def
    by (rule le_trans [OF TrimLeft_space_length]) simp
  moreover have "length (snd (consumeValue (after_equals v))) \<le> length (after_equals v)"
    by (rule consumeValue_length)
  ultimately show ?thesis
    using rest by simp
qed

lemma params_loop_unguarded:
  "params_loop v keys mediatype =
    (if TrimLeft_space v = [] then (mediatype, None)
     else if fst (consumeMediaParam (TrimLeft_space v)) = [] then
       (if TrimSpace (snd (snd (consumeMediaParam (TrimLeft_space v)))) = '';''
        then (mediatype, None)
        else (mediatype, Some (ErrorString ''mime: invalid media parameter'')))
     else if fst (consumeMediaParam (TrimLeft_space v)) \<in> set keys
       then ([], Some (ErrorString ''mime: duplicate parameter name''))
     else params_loop (snd (snd (consumeMediaParam (TrimLeft_space v))))
            (fst (consumeMediaParam (TrimLeft_space v)) # keys) mediatype)"
proof (cases "fst (consumeMediaParam (TrimLeft_space v)) = []")
  case True
  then show ?thesis
    by (subst params_loop.simps) simp
next
  case False
  from consumeMediaParam_length [OF False] TrimLeft_space_length [of v]
  have "length (snd (snd (consumeMediaParam (TrimLeft_space v)))) < length v"
    by simp
  then show ?thesis
    by (subst params_loop.simps) simp
qed

subsection \<open>Construction and classification\<close>

text \<open>
  Claim C8. \<^verbatim>\<open>New\<close> accepts every code and every cause, absent or not, and stores both as
  given: the value it returns is a \<^verbatim>\<open>*httpError\<close> on which \<^verbatim>\<open>StatusCode\<close> returns the
  code and \<^verbatim>\<open>Unwrap\<close> returns the cause.
\<close>

theorem New_stores_verbatim:
  "New c e = HTTP (HttpError c e) \<and> StatusCode (HttpError c e) = c
     \<and> Unwrap (HttpError c e) = e \<and> as_StatusCoder (New c e) = Some c"
  by (simp add: New_def StatusCode_def Unwrap_def)




text \<open>
  Claim C9, as stated: every value that a constructor returns stores a code from 100 to
  599. \<^verbatim>\<open>New\<close> checks nothing: given the code 0 it stores 0.
\<close>

theorem New_stores_code_out_of_range:
  "as_StatusCoder (New 0 None) = Some 0 \<and> \<not> valid_status 0"
  by (simp add: New_def StatusCode_def valid_status_def)

text \<open>
  Claim C9, amended: the four named shortcuts store the codes 400, 500, 404 and 405,
  which lie in the range from 100 to 599; \<^verbatim>\<open>New\<close> and \<^verbatim>\<open>Errorf\<close> store the code they are
  given, whatever it is, so the stored code lies in that range exactly when the given
  one does.
\<close>

theorem constructors_stored_code:
  "as_StatusCoder (BadRequest e) = Some 400 \<and> valid_status 400
   \<and> as_StatusCoder (InternalServerError e) = Some 500 \<and> valid_status 500
   \<and> as_StatusCoder (NotFound e) = Some 404 \<and> valid_status 404
   \<and> as_StatusCoder (MethodNotAllowed e) = Some 405 \<and> valid_status 405
   \<and> as_StatusCoder (New c e) = Some c
   \<and> as_StatusCoder (Errorf sprintf c format args) = Some c"
  by (simp add: BadRequest_def InternalServerError_def NotFound_def MethodNotAllowed_def
      New_def Errorf_def StatusCode_def valid_status_def)

subsection \<open>Quoting lengthens a text\<close>

text \<open>
  A rune of more than one byte is no ASCII character, so every escape that
  \<^verbatim>\<open>strconv.Quote\<close> writes is at least as long as the rune it stands for, and the quoted
  text, with its two quotes, is longer than the text. The text of an \<^verbatim>\<open>*httpError\<close> with
  a cause therefore differs from the text of the cause.
\<close>

lemma byte_range: "0 \<le> byte c \<and> byte c < 256"
proof -
  have "0 \<le> (of_char c :: int) mod 256 \<and> (of_char c :: int) mod 256 < 256"
    by (simp del: of_char_mod_256)
  then show ?thesis
    by (simp add: byte_def)
qed



lemma hex_lengths [simp]: "length (hex2 n) = 2" "length (hex4 n) = 4" "length (hex8 n) = 8"
  by (simp_all add: hex2_def hex4_def hex8_def)









subsection \<open>Responding\<close>

lemma Encode_calls: "w_calls (fst (Encode m w v)) = w_calls w @ writes (m v)"
  by (simp add: Encode_def writes_def call_def split: sum.splits)

lemma Encode_result:
  "snd (Encode m w v) = (case m v of Inl e \<Rightarrow> Some e | Inr b \<Rightarrow> w_Write w (b @ [CHR 0x0A]))"
  by (simp add: Encode_def split: sum.splits)

text \<open>
  What \<^verbatim>\<open>RespondJSON\<close> does to the writer for an error: one \<^verbatim>\<open>WriteHeader\<close> with the code
  of the error, or 500, then the encoding of the error itself if it is a
  \<^verbatim>\<open>json.Unmarshaler\<close> and of \<^verbatim>\<open>New(code, err)\<close> if it is not.
\<close>

lemma RespondJSON_error_calls:
  "w_calls (fst (RespondJSON marshal w (IsErr e))) =
     w_calls w
     @ WriteHeader (case as_StatusCoder e of Some c \<Rightarrow> c | None \<Rightarrow> 500)
     # writes (json_Marshal_error
         (if as_Unmarshaler e then e
          else New (case as_StatusCoder e of Some c \<Rightarrow> c | None \<Rightarrow> 500) (Some e)))"
  by (simp add: RespondJSON_def Let_def Encode_calls call_def Header_Set_def)

text \<open>
  Claim C3. For a value that is not an error, \<^verbatim>\<open>RespondJSON\<close> calls \<^verbatim>\<open>WriteHeader(200)\<close> and
  then writes the JSON encoding of that very value, followed by a newline (nothing, if
  the value cannot be encoded; the error of the encoder or of the write is returned).
  For an error, the one call of \<^verbatim>\<open>WriteHeader\<close> carries the status code of the error if
  it is a \<^verbatim>\<open>StatusCoder\<close>, and 500 if it is not.
\<close>

theorem RespondJSON_status:
  "w_calls (fst (RespondJSON marshal w (NotErr v)))
     = w_calls w @ WriteHeader 200 # writes (marshal v)
   \<and> snd (RespondJSON marshal w (NotErr v))
     = (case marshal v of Inl e \<Rightarrow> Some e | Inr b \<Rightarrow> w_Write w (b @ [CHR 0x0A]))
   \<and> take (Suc (length (w_calls w))) (w_calls (fst (RespondJSON marshal w (IsErr e))))
     = w_calls w @ [WriteHeader (case as_StatusCoder e of Some c \<Rightarrow> c | None \<Rightarrow> 500)]"
  by (simp add: RespondJSON_error_calls)
     (simp add: RespondJSON_def Let_def Encode_calls Encode_result call_def Header_Set_def
        split: sum.splits)

lemma missing_direct:
  \<open>MarshalJSON (HttpError 404 (Some (ErrorString ''missing'')))
     = Inr ''{"message":"missing","error":"Not Found","statusCode":404}''\<close>
  by code_simp

lemma missing_wrapped:
  \<open>MarshalJSON (HttpError 404 (Some (HTTP (HttpError 404 (Some (ErrorString ''missing''))))))
     = Inr (''{"message":'' @ json_encode_string ''404 Not Found: "missing"''
            @ '',"error":"Not Found","statusCode":404}'')\<close>
  by code_simp

text \<open>
  Claim C4, at the error \<^verbatim>\<open>New(404, errors.New("missing"))\<close>. The error has a JSON
  encoding of its own (\<^verbatim>\<open>MarshalJSON\<close>), which gives the message \<^verbatim>\<open>missing\<close>; the third
  conjunct is what encoding it directly would write. \<^verbatim>\<open>RespondJSON\<close> wraps it all the same
  and writes a payload whose message is the whole text of the error.
\<close>

theorem RespondJSON_wraps_an_error_with_MarshalJSON:
  \<open>as_Marshaler (New 404 (Some (ErrorString ''missing'')))
   \<and> w_calls (fst (RespondJSON marshal w (IsErr (New 404 (Some (ErrorString ''missing''))))))
       = w_calls w @
         [WriteHeader 404,
          Write (''{"message":'' @ json_encode_string ''404 Not Found: "missing"''
                 @ '',"error":"Not Found","statusCode":404}'' @ [CHR 0x0A])]
   \<and> writes (json_Marshal_error (New 404 (Some (ErrorString ''missing''))))
       = [Write (''{"message":"missing","error":"Not Found","statusCode":404}'' @ [CHR 0x0A])]\<close>
  by (simp add: RespondJSON_error_calls)
     (simp add: New_def StatusCode_def writes_def missing_wrapped missing_direct)


subsection \<open>Reading a response\<close>








lemma boom_payload:
  \<open>json_Marshal_error (New 500 (Some (ErrorString ''boom'')))
     = Inr ''{"message":"boom","error":"Internal Server Error","statusCode":500}''\<close>
  by code_simp

lemma boom_response:
  \<open>FromResponse
     \<lparr>resp_StatusCode = 500, resp_Header = [''Content-Type'' \<mapsto> [''application/json'']],
      resp_Body =
        (''{"message":"boom","error":"Internal Server Error","statusCode":500}'', None)\<rparr>
   = New 500 (Some (ErrorString ''boom''))\<close>
  by code_simp

text \<open>
  Claim C2. The JSON encoding of \<^verbatim>\<open>New(500, errors.New("boom"))\<close> is the payload of the
  first conjunct; a response with status 500, the header
  \<^verbatim>\<open>Content-Type: application/json\<close> and these bytes as body is turned by \<^verbatim>\<open>FromResponse\<close>
  into an \<^verbatim>\<open>*httpError\<close> with the code 500 and a cause whose text is \<^verbatim>\<open>boom\<close>.
\<close>

theorem boom_round_trip:
  \<open>json_Marshal_error (New 500 (Some (ErrorString ''boom'')))
     = Inr ''{"message":"boom","error":"Internal Server Error","statusCode":500}''
   \<and> (\<exists>cause.
        FromResponse
          \<lparr>resp_StatusCode = 500, resp_Header = [''Content-Type'' \<mapsto> [''application/json'']],
           resp_Body =
             (''{"message":"boom","error":"Internal Server Error","statusCode":500}'', None)\<rparr>
        = HTTP (HttpError 500 (Some cause)) \<and> Error cause = ''boom'')\<close>
  using boom_payload boom_response by (simp add: New_def)

end
